theory Spec2Isabelle
  imports Complex_Main
begin

section \<open>Decimal arithmetic of the program\<close>

text \<open>
  The program computes with Python's \<^verbatim>\<open>decimal.Decimal\<close> in the default context:
  28 significant digits, results of \<^verbatim>\<open>+ - * /\<close> and \<^verbatim>\<open>abs\<close> rounded with
  ROUND_HALF_EVEN, comparisons exact. A finite Decimal is modelled by its value, a
  rational number; every operation is the exact operation followed by the rounding of
  the context. The special values NaN and Infinity and the exponent limits of the
  context (Emax = 999999) are not represented.
\<close>

type_synonym decimal = rat

text \<open>\<open>ilog10 n\<close> is the position of the leading decimal digit of \<open>n\<close> (for \<open>n > 0\<close>).\<close>

function ilog10 :: "int \<Rightarrow> nat" where
  "ilog10 n = (if n < 10 then 0 else Suc (ilog10 (n div 10)))"
  by pat_completeness auto
termination
  by (relation "measure nat") auto

declare ilog10.simps [simp del]

text \<open>The adjusted exponent of a nonzero value: the power of ten of its leading digit.\<close>

definition adjusted :: "decimal \<Rightarrow> int" where
  "adjusted x =
     (let a = \<bar>x\<bar> in
      if 1 \<le> a then int (ilog10 \<lfloor>a\<rfloor>)
      else (let j = ilog10 \<lfloor>1 / a\<rfloor> in
            if 1 \<le> a * 10 ^ j then - int j else - int j - 1))"

definition round_half_even :: "rat \<Rightarrow> int" where
  "round_half_even x =
     (let f = \<lfloor>x\<rfloor>; r = x - of_int f in
      if r < 1 / 2 then f
      else if 1 / 2 < r then f + 1
      else if even f then f else f + 1)"

text \<open>ROUND_HALF_UP of the decimal module: to nearest, ties away from zero.\<close>

definition round_half_up :: "rat \<Rightarrow> int" where
  "round_half_up x = (if 0 \<le> x then \<lfloor>x + 1 / 2\<rfloor> else - \<lfloor>- x + 1 / 2\<rfloor>)"

text \<open>The rounding every arithmetic result goes through: 28 significant digits.\<close>

definition ctx_round :: "decimal \<Rightarrow> decimal" where
  "ctx_round x =
     (if x = 0 then 0
      else (let q = 10 powi (adjusted x - 27) in of_int (round_half_even (x / q)) * q))"

definition dec_add :: "decimal \<Rightarrow> decimal \<Rightarrow> decimal" where
  "dec_add a b = ctx_round (a + b)"

definition dec_sub :: "decimal \<Rightarrow> decimal \<Rightarrow> decimal" where
  "dec_sub a b = ctx_round (a - b)"

definition dec_mul :: "decimal \<Rightarrow> decimal \<Rightarrow> decimal" where
  "dec_mul a b = ctx_round (a * b)"

text \<open>Division; the program divides only behind a test that the divisor is positive.\<close>

definition dec_div :: "decimal \<Rightarrow> decimal \<Rightarrow> decimal" where
  "dec_div a b = ctx_round (a / b)"


text \<open>
  \<^verbatim>\<open>Decimal.quantize(Decimal("0.01"), rounding=ROUND_HALF_UP)\<close>: the value rounded to two
  decimal places. The decimal module signals InvalidOperation when the coefficient of
  the result would have more than 28 digits; that is \<open>None\<close> here.
\<close>

definition quantize :: "decimal \<Rightarrow> decimal option" where
  "quantize x =
     (let c = round_half_up (x * 100) in
      if 10 ^ 28 \<le> \<bar>c\<bar> then None else Some (of_int c / 100))"

text \<open>
  A Python value handed to \<^verbatim>\<open>Decimal(...)\<close>: \<open>PyNone\<close>, a text that is not a number,
  a number (an int, a float, a Decimal or a numeric text, by its value), or any other
  object. \<^verbatim>\<open>Decimal\<close> raises InvalidOperation on \<open>PyStr\<close> and TypeError or ValueError
  on \<open>PyOther\<close>.
\<close>

datatype pyvalue = PyNone | PyStr string | PyNum decimal | PyOther

text \<open>
  \<^verbatim>\<open>
  def quantize_decimal(d):
      if d is None: return Decimal(0)
      try:
          return Decimal(d).quantize(Decimal("0.01"), rounding=ROUND_HALF_UP)
      except (TypeError, InvalidOperation, ValueError):
          return Decimal(0)
  \<close>
\<close>

definition quantize_decimal :: "pyvalue \<Rightarrow> decimal" where
  "quantize_decimal d =
     (case d of
        PyNone \<Rightarrow> 0
      | PyNum x \<Rightarrow> (case quantize x of Some y \<Rightarrow> y | None \<Rightarrow> 0)
      | PyStr s \<Rightarrow> 0
      | PyOther \<Rightarrow> 0)"

text \<open>The rounding the specification calls \<open>round2\<close>: half-up to two decimal places.\<close>

definition round2 :: "rat \<Rightarrow> rat" where
  "round2 x = of_int (round_half_up (x * 100)) / 100"


section \<open>Constants, month names and period keys\<close>

definition COMPANIES :: "string list" where
  "COMPANIES = [''SOL'', ''HELO'']"

definition TRANSACTION_TYPES :: "string list" where
  "TRANSACTION_TYPES = [''Sales'', ''Imports'', ''Local'']"

text \<open>\<^verbatim>\<open>calendar.month_name[1..12]\<close>; no locale is set, so the names are the English ones.\<close>

definition MONTH_NAMES :: "string list" where
  "MONTH_NAMES = [''January'', ''February'', ''March'', ''April'', ''May'', ''June'',
     ''July'', ''August'', ''September'', ''October'', ''November'', ''December'']"

text \<open>\<^verbatim>\<open>list.index\<close>: the first position of an element; \<open>None\<close> is its ValueError.\<close>

fun index_of :: "'a list \<Rightarrow> 'a \<Rightarrow> nat option" where
  "index_of [] x = None"
| "index_of (y # ys) x =
     (if y = x then Some 0 else (case index_of ys x of None \<Rightarrow> None | Some i \<Rightarrow> Some (Suc i)))"

text \<open>Decimal digits of an integer, as \<^verbatim>\<open>str\<close> and the format \<^verbatim>\<open>:02d\<close> write them.\<close>

definition digit_char :: "int \<Rightarrow> char" where
  "digit_char d = ''0123456789'' ! nat d"

function str_digits :: "int \<Rightarrow> string" where
  "str_digits n = (if n < 10 then [digit_char n] else str_digits (n div 10) @ [digit_char (n mod 10)])"
  by pat_completeness auto
termination
  by (relation "measure nat") auto

declare str_digits.simps [simp del]

definition str_int :: "int \<Rightarrow> string" where
  "str_int n = (if n < 0 then CHR ''-'' # str_digits (- n) else str_digits n)"

definition pad2 :: "int \<Rightarrow> string" where
  "pad2 m = (if 0 \<le> m \<and> m < 10 then CHR ''0'' # str_digits m else str_int m)"

text \<open>
  A \<^verbatim>\<open>datetime.date\<close>. The constructor raises ValueError outside the years 1 to 9999
  (\<open>None\<close> in \<open>date_new\<close>); subtracting a day from the first day of year 1 raises
  OverflowError (\<open>None\<close> in \<open>minus_one_day\<close>).
\<close>

record date =
  year :: int
  month :: int
  day :: int

definition is_leap :: "int \<Rightarrow> bool" where
  "is_leap y = (y mod 4 = 0 \<and> (y mod 100 \<noteq> 0 \<or> y mod 400 = 0))"

definition days_in_month :: "int \<Rightarrow> int \<Rightarrow> int" where
  "days_in_month y m =
     (if m = 2 then (if is_leap y then 29 else 28)
      else if m = 4 \<or> m = 6 \<or> m = 9 \<or> m = 11 then 30 else 31)"

definition date_new :: "int \<Rightarrow> int \<Rightarrow> int \<Rightarrow> date option" where
  "date_new y m d =
     (if 1 \<le> y \<and> y \<le> 9999 \<and> 1 \<le> m \<and> m \<le> 12 \<and> 1 \<le> d \<and> d \<le> days_in_month y m
      then Some \<lparr>year = y, month = m, day = d\<rparr> else None)"

definition minus_one_day :: "date \<Rightarrow> date option" where
  "minus_one_day d =
     (if 1 < day d then Some (d\<lparr>day := day d - 1\<rparr>)
      else if 1 < month d
        then Some \<lparr>year = year d, month = month d - 1, day = days_in_month (year d) (month d - 1)\<rparr>
      else if 1 < year d then Some \<lparr>year = year d - 1, month = 12, day = 31\<rparr>
      else None)"

text \<open>
  \<^verbatim>\<open>strftime('%Y-%m')\<close>. The year is written without padding, as the C library of
  Linux does; every platform writes the years from 1000 on this way.
\<close>

definition strftime_Ym :: "date \<Rightarrow> string" where
  "strftime_Ym d = str_int (year d) @ ''-'' @ pad2 (month d)"

text \<open>
  \<^verbatim>\<open>
  def get_month_year_str(year, month_name):
      try:
          month_num = MONTH_NAMES.index(month_name) + 1
          return f"{int(year)}-{month_num:02d}"
      except (ValueError, TypeError):
          today = datetime.date.today()
          return f"{today.year}-{today.month:02d}"
  \<close>
  The year comes from an \<^verbatim>\<open>IntVar\<close>, so it is an integer; \<open>today\<close> is the value of
  \<^verbatim>\<open>datetime.date.today()\<close>.
\<close>

definition get_month_year_str :: "int \<Rightarrow> string \<Rightarrow> date \<Rightarrow> string" where
  "get_month_year_str yr month_name today =
     (case index_of MONTH_NAMES month_name of
        Some i \<Rightarrow> str_int yr @ ''-'' @ pad2 (int i + 1)
      | None \<Rightarrow> str_int (year today) @ ''-'' @ pad2 (month today))"

datatype py_exception = OverflowError

text \<open>
  \<^verbatim>\<open>
  def get_prev_month_year_str(year, month_name):
      try:
          month_num = MONTH_NAMES.index(month_name) + 1
          current_date = datetime.date(int(year), month_num, 1)
          prev_month_date = current_date - datetime.timedelta(days=1)
          return prev_month_date.strftime('%Y-%m')
      except (ValueError, TypeError):
          today = datetime.date.today()
          prev_month = today.replace(day=1) - datetime.timedelta(days=1)
          return prev_month.strftime('%Y-%m')
  \<close>
  An OverflowError is not caught here and leaves the function (\<open>Inl\<close>).
\<close>

definition get_prev_month_year_str :: "int \<Rightarrow> string \<Rightarrow> date \<Rightarrow> py_exception + string" where
  "get_prev_month_year_str yr month_name today =
     (case (case index_of MONTH_NAMES month_name of
              None \<Rightarrow> None
            | Some i \<Rightarrow> date_new yr (int i + 1) 1) of
        Some current_date \<Rightarrow>
          (case minus_one_day current_date of
             None \<Rightarrow> Inl OverflowError
           | Some prev_month_date \<Rightarrow> Inr (strftime_Ym prev_month_date))
      | None \<Rightarrow>
          (case minus_one_day (today\<lparr>day := 1\<rparr>) of
             None \<Rightarrow> Inl OverflowError
           | Some prev_month \<Rightarrow> Inr (strftime_Ym prev_month)))"

text \<open>The previous period as the specification has it: calendar arithmetic on (year, month).\<close>

definition previous_period :: "int \<times> int \<Rightarrow> int \<times> int" where
  "previous_period p = (if snd p = 1 then (fst p - 1, 12) else (fst p, snd p - 1))"

definition period_key :: "int \<times> int \<Rightarrow> string" where
  "period_key p = str_int (fst p) @ ''-'' @ pad2 (snd p)"

section \<open>The application state\<close>

text \<open>
  The value a \<^verbatim>\<open>StringVar\<close> of an amount field holds, as \<^verbatim>\<open>_safely_get_decimal\<close> reads
  it: the empty text, a text on which \<^verbatim>\<open>Decimal\<close> raises, or a text that \<^verbatim>\<open>Decimal\<close>
  reads as a number. The program writes a number \<open>x\<close> into a field as \<^verbatim>\<open>f"{x:.2f}"\<close>,
  always a value with two decimal places, which reads back as \<open>x\<close>.
\<close>

datatype entry_text = Empty_text | Invalid_text | Decimal_text decimal

datatype widget = V_me_tvsh_entry | V_pa_tvsh_entry | Tvsh_entry | Other_widget

datatype bootstyle = SUCCESS | DANGER | DEFAULT

text \<open>
  A transaction is a dictionary with text keys, as loaded from the JSON file or built by
  \<^verbatim>\<open>_add_or_update_entry\<close>; a key that is absent maps to \<open>None\<close>.
\<close>

type_synonym transaction = "string \<rightharpoonup> pyvalue"

text \<open>
  The amounts the labels of one company show: per transaction type the totals with VAT,
  without VAT and the VAT, then the surplus carried forward and the balance with its
  colour.
\<close>

record company_labels =
  type_labels :: "string \<rightharpoonup> decimal \<times> decimal \<times> decimal"
  prev_surplus :: decimal
  balance :: decimal
  balance_style :: bootstyle

text \<open>
  The fields of \<^verbatim>\<open>self\<close> the derivations, the validation and the ledger use.
  \<open>has_...\<close> is \<^verbatim>\<open>hasattr(self, ...)\<close> for the three entry widgets; \<open>focus\<close> is what
  \<^verbatim>\<open>focus_get()\<close> returns, the widget of the application that owns the keyboard
  focus, whichever widget it is asked on, and \<open>None\<close> when the application has no
  focus.
\<close>

record app =
  company_var :: string
  year_var :: int
  month_var :: string
  v_me_tvsh_var :: entry_text
  v_pa_tvsh_var :: entry_text
  tvsh_var :: entry_text
  vat_rate :: decimal
  calculating :: bool
  has_v_me_tvsh_entry :: bool
  has_v_pa_tvsh_entry :: bool
  has_tvsh_entry :: bool
  focus :: "widget option"
  transactions :: "transaction list"
  carry_forward_data :: "string \<rightharpoonup> (string \<rightharpoonup> decimal)"
  live_labels :: "string \<rightharpoonup> company_labels"


section \<open>Derivation of the amount fields\<close>

text \<open>
  \<^verbatim>\<open>
  def _safely_get_decimal(self, var):
      try:
          value_str = var.get()
          return Decimal(value_str) if value_str else None
      except (InvalidOperation, ValueError, TypeError):
          return None
  \<close>
\<close>

definition safely_get_decimal :: "entry_text \<Rightarrow> decimal option" where
  "safely_get_decimal var =
     (case var of Empty_text \<Rightarrow> None | Invalid_text \<Rightarrow> None | Decimal_text x \<Rightarrow> Some x)"

text \<open>The test \<^verbatim>\<open>x is not None and x >= 0\<close> on an amount read from a field.\<close>

definition amount_ok :: "decimal option \<Rightarrow> bool" where
  "amount_ok x = (case x of None \<Rightarrow> False | Some a \<Rightarrow> 0 \<le> a)"

text \<open>
  The three write traces of the amount fields. Each returns at once while
  \<^verbatim>\<open>_calculating\<close> is set or before its own entry widget exists; otherwise it sets the
  flag, derives the two other fields or clears them, and resets the flag. The
  \<^verbatim>\<open>set\<close> calls inside fire the traces of the fields written, which return at once
  because the flag is set.
  \<^verbatim>\<open>
  def _calculate_from_base(self, *args):
      if self._calculating or not hasattr(self, 'v_pa_tvsh_entry'): return
      self._set_calculation_flag(True)
      base = self._safely_get_decimal(self.v_pa_tvsh_var)
      if base is not None and base >= 0:
          vat = quantize_decimal(base * self.vat_rate)
          total = quantize_decimal(base + vat)
          if hasattr(self, 'tvsh_entry'): self.tvsh_var.set(f"{vat:.2f}")
          if hasattr(self, 'v_me_tvsh_entry'): self.v_me_tvsh_var.set(f"{total:.2f}")
      elif hasattr(self, 'tvsh_entry') and hasattr(self, 'v_me_tvsh_entry') and \
           not self.tvsh_entry.focus_get() and not self.v_me_tvsh_entry.focus_get():
          self.tvsh_var.set("")
          self.v_me_tvsh_var.set("")
      self._set_calculation_flag(False)
  \<close>
\<close>

definition calculate_from_base :: "app \<Rightarrow> app" where
  "calculate_from_base s =
     (if calculating s \<or> \<not> has_v_pa_tvsh_entry s then s
      else
        (let s1 = s\<lparr>calculating := True\<rparr>;
             base = safely_get_decimal (v_pa_tvsh_var s1);
             s2 =
               (if amount_ok base then
                  (let b = the base;
                       vat = quantize_decimal (PyNum (dec_mul b (vat_rate s1)));
                       total = quantize_decimal (PyNum (dec_add b vat));
                       s' = (if has_tvsh_entry s1 then s1\<lparr>tvsh_var := Decimal_text vat\<rparr> else s1)
                   in (if has_v_me_tvsh_entry s' then s'\<lparr>v_me_tvsh_var := Decimal_text total\<rparr>
                       else s'))
                else if has_tvsh_entry s1 \<and> has_v_me_tvsh_entry s1 \<and> focus s1 = None
                       \<and> focus s1 = None then
                  s1\<lparr>tvsh_var := Empty_text, v_me_tvsh_var := Empty_text\<rparr>
                else s1)
         in s2\<lparr>calculating := False\<rparr>))"

text \<open>
  \<^verbatim>\<open>
  def _calculate_from_vat(self, *args):
      if self._calculating or not hasattr(self, 'tvsh_entry'): return
      self._set_calculation_flag(True)
      vat = self._safely_get_decimal(self.tvsh_var)
      if vat is not None and vat >= 0 and self.vat_rate > 0:
          base = quantize_decimal(vat / self.vat_rate)
          total = quantize_decimal(base + vat)
          if hasattr(self, 'v_pa_tvsh_entry'): self.v_pa_tvsh_var.set(f"{base:.2f}")
          if hasattr(self, 'v_me_tvsh_entry'): self.v_me_tvsh_var.set(f"{total:.2f}")
      elif hasattr(self, 'v_pa_tvsh_entry') and hasattr(self, 'v_me_tvsh_entry') and \
           not self.v_pa_tvsh_entry.focus_get() and not self.v_me_tvsh_entry.focus_get():
          self.v_pa_tvsh_var.set("")
          self.v_me_tvsh_var.set("")
      self._set_calculation_flag(False)
  \<close>
\<close>

definition calculate_from_vat :: "app \<Rightarrow> app" where
  "calculate_from_vat s =
     (if calculating s \<or> \<not> has_tvsh_entry s then s
      else
        (let s1 = s\<lparr>calculating := True\<rparr>;
             vat = safely_get_decimal (tvsh_var s1);
             s2 =
               (if amount_ok vat \<and> 0 < vat_rate s1 then
                  (let v = the vat;
                       base = quantize_decimal (PyNum (dec_div v (vat_rate s1)));
                       total = quantize_decimal (PyNum (dec_add base v));
                       s' = (if has_v_pa_tvsh_entry s1 then s1\<lparr>v_pa_tvsh_var := Decimal_text base\<rparr>
                             else s1)
                   in (if has_v_me_tvsh_entry s' then s'\<lparr>v_me_tvsh_var := Decimal_text total\<rparr>
                       else s'))
                else if has_v_pa_tvsh_entry s1 \<and> has_v_me_tvsh_entry s1 \<and> focus s1 = None
                       \<and> focus s1 = None then
                  s1\<lparr>v_pa_tvsh_var := Empty_text, v_me_tvsh_var := Empty_text\<rparr>
                else s1)
         in s2\<lparr>calculating := False\<rparr>))"

text \<open>
  \<^verbatim>\<open>
  def _calculate_from_total(self, *args):
      if self._calculating or not hasattr(self, 'v_me_tvsh_entry'): return
      self._set_calculation_flag(True)
      total = self._safely_get_decimal(self.v_me_tvsh_var)
      denominator = (1 + self.vat_rate)
      if total is not None and total >= 0 and denominator > 0:
          base = quantize_decimal(total / denominator)
          vat = quantize_decimal(total - base)
          if hasattr(self, 'v_pa_tvsh_entry'): self.v_pa_tvsh_var.set(f"{base:.2f}")
          if hasattr(self, 'tvsh_entry'): self.tvsh_var.set(f"{vat:.2f}")
      elif hasattr(self, 'v_pa_tvsh_entry') and hasattr(self, 'tvsh_entry') and \
           not self.v_pa_tvsh_entry.focus_get() and not self.tvsh_entry.focus_get():
          self.v_pa_tvsh_var.set("")
          self.tvsh_var.set("")
      self._set_calculation_flag(False)
  \<close>
\<close>

definition calculate_from_total :: "app \<Rightarrow> app" where
  "calculate_from_total s =
     (if calculating s \<or> \<not> has_v_me_tvsh_entry s then s
      else
        (let s1 = s\<lparr>calculating := True\<rparr>;
             total = safely_get_decimal (v_me_tvsh_var s1);
             denominator = dec_add 1 (vat_rate s1);
             s2 =
               (if amount_ok total \<and> 0 < denominator then
                  (let t = the total;
                       base = quantize_decimal (PyNum (dec_div t denominator));
                       vat = quantize_decimal (PyNum (dec_sub t base));
                       s' = (if has_v_pa_tvsh_entry s1 then s1\<lparr>v_pa_tvsh_var := Decimal_text base\<rparr>
                             else s1)
                   in (if has_tvsh_entry s' then s'\<lparr>tvsh_var := Decimal_text vat\<rparr> else s'))
                else if has_v_pa_tvsh_entry s1 \<and> has_tvsh_entry s1 \<and> focus s1 = None
                       \<and> focus s1 = None then
                  s1\<lparr>v_pa_tvsh_var := Empty_text, tvsh_var := Empty_text\<rparr>
                else s1)
         in s2\<lparr>calculating := False\<rparr>))"

section \<open>Validation of a submitted entry\<close>




section \<open>The monthly ledger\<close>

text \<open>
  \<^verbatim>\<open>monthly_totals\<close> is a \<^verbatim>\<open>defaultdict\<close> of \<^verbatim>\<open>defaultdict\<close>s of
  \<^verbatim>\<open>defaultdict(Decimal)\<close>, read with the default \<^verbatim>\<open>Decimal(0)\<close> at every level: a
  function from company, transaction type and column to an amount, \<open>0\<close> where nothing
  was added.
\<close>

type_synonym monthly_totals = "string \<Rightarrow> string \<Rightarrow> string \<Rightarrow> decimal"

text \<open>
  One turn of the loop over the transactions:
  \<^verbatim>\<open>
  for trans in self.transactions:
      if trans.get('month_year') == current_month_year and \
         'company' in trans and 'transaction_type' in trans:
          comp = trans['company']
          t_type = trans['transaction_type']
          if comp in COMPANIES and t_type in TRANSACTION_TYPES:
              base = quantize_decimal(trans.get('base', 0))
              vat = quantize_decimal(trans.get('vat', 0))
              total = quantize_decimal(trans.get('total', 0))
              ...
              monthly_totals[comp][t_type]['v_pa_tvsh'] += base
              monthly_totals[comp][t_type]['tvsh'] += vat
              monthly_totals[comp][t_type]['v_me_tvsh'] += total
  \<close>
\<close>

definition get_or_zero :: "transaction \<Rightarrow> string \<Rightarrow> pyvalue" where
  "get_or_zero tr k = (case tr k of None \<Rightarrow> PyNum 0 | Some x \<Rightarrow> x)"

definition add_transaction :: "string \<Rightarrow> monthly_totals \<Rightarrow> transaction \<Rightarrow> monthly_totals" where
  "add_transaction current_month_year totals tr =
     (if tr ''month_year'' = Some (PyStr current_month_year)
         \<and> tr ''company'' \<noteq> None \<and> tr ''transaction_type'' \<noteq> None then
        (case (tr ''company'', tr ''transaction_type'') of
           (Some (PyStr company), Some (PyStr t_type)) \<Rightarrow>
             (if company \<in> set COMPANIES \<and> t_type \<in> set TRANSACTION_TYPES then
                (let base = quantize_decimal (get_or_zero tr ''base'');
                     vat = quantize_decimal (get_or_zero tr ''vat'');
                     total = quantize_decimal (get_or_zero tr ''total'');
                     row = totals company t_type
                 in totals(company := (totals company)(t_type := row
                      (''v_pa_tvsh'' := dec_add (row ''v_pa_tvsh'') base,
                       ''tvsh'' := dec_add (row ''tvsh'') vat,
                       ''v_me_tvsh'' := dec_add (row ''v_me_tvsh'') total))))
              else totals)
         | _ \<Rightarrow> totals)
      else totals)"

definition monthly_totals_of :: "string \<Rightarrow> transaction list \<Rightarrow> monthly_totals" where
  "monthly_totals_of current_month_year ts =
     foldl (add_transaction current_month_year) (\<lambda>company t_type col. 0) ts"

text \<open>
  The surplus carried forward into the month:
  \<^verbatim>\<open>self.carry_forward_data.get(company, {}).get(prev_month_year, Decimal(0))\<close>.
\<close>

definition carried_forward :: "(string \<rightharpoonup> (string \<rightharpoonup> decimal)) \<Rightarrow> string \<Rightarrow> string \<Rightarrow> decimal" where
  "carried_forward cf company prev_month_year =
     (case cf company of
        None \<Rightarrow> 0
      | Some months \<Rightarrow> (case months prev_month_year of None \<Rightarrow> 0 | Some x \<Rightarrow> x))"

definition net_vat :: "monthly_totals \<Rightarrow> string \<Rightarrow> decimal" where
  "net_vat totals company =
     dec_sub (dec_sub (totals company ''Sales'' ''tvsh'') (totals company ''Imports'' ''tvsh''))
             (totals company ''Local'' ''tvsh'')"

definition current_balance_of :: "monthly_totals \<Rightarrow> decimal \<Rightarrow> string \<Rightarrow> decimal" where
  "current_balance_of totals prev_surplus_carried_forward company =
     dec_add prev_surplus_carried_forward (net_vat totals company)"

text \<open>
  \<^verbatim>\<open>
  def format_curr(amount):
      try:
          return f"{CURRENCY_SYMBOL}{quantize_decimal(amount):,.2f}"
      except Exception:
          return f"{CURRENCY_SYMBOL} Error"
  \<close>
  The text is the currency symbol and the digits of \<^verbatim>\<open>quantize_decimal(amount)\<close>; the
  model keeps the number the text shows. Formatting a finite amount does not raise.
\<close>

definition format_curr :: "decimal \<Rightarrow> decimal" where
  "format_curr amount = quantize_decimal (PyNum amount)"

text \<open>The values one company's labels are set to.\<close>

definition labels_of :: "monthly_totals \<Rightarrow> decimal \<Rightarrow> string \<Rightarrow> company_labels" where
  "labels_of totals prev_surplus_carried_forward company =
     (let current_balance = current_balance_of totals prev_surplus_carried_forward company
      in \<lparr>type_labels = map_of (map (\<lambda>t_type. (t_type,
              (format_curr (totals company t_type ''v_me_tvsh''),
               format_curr (totals company t_type ''v_pa_tvsh''),
               format_curr (totals company t_type ''tvsh'')))) TRANSACTION_TYPES),
           prev_surplus = format_curr prev_surplus_carried_forward,
           balance = format_curr current_balance,
           balance_style = (if current_balance < 0 then SUCCESS
                            else if 0 < current_balance then DANGER else DEFAULT)\<rparr>)"

text \<open>
  One turn of the loop over the companies: the labels of the company are set where they
  exist, then the carry-forward entry of the current month is written or deleted.
  \<^verbatim>\<open>
  for company in COMPANIES:
      company_month_data = monthly_totals.get(company, {})
      sales_vat = company_month_data.get("Sales", {}).get('tvsh', Decimal(0))
      imports_vat = company_month_data.get("Imports", {}).get('tvsh', Decimal(0))
      local_vat = company_month_data.get("Local", {}).get('tvsh', Decimal(0))
      prev_surplus_carried_forward = self.carry_forward_data.get(company, {}).get(prev_month_year, Decimal(0))
      current_month_net_vat = sales_vat - imports_vat - local_vat
      current_balance = prev_surplus_carried_forward + current_month_net_vat
      ... (labels) ...
      if company not in self.carry_forward_data:
          self.carry_forward_data[company] = defaultdict(Decimal)
      if current_balance < 0:
          self.carry_forward_data[company][current_month_year] = quantize_decimal(current_balance)
      else:
          if current_month_year in self.carry_forward_data.get(company, {}):
              del self.carry_forward_data[company][current_month_year]
  \<close>
\<close>

definition company_step :: "string \<Rightarrow> string \<Rightarrow> monthly_totals \<Rightarrow> app \<Rightarrow> string \<Rightarrow> app" where
  "company_step current_month_year prev_month_year totals s company =
     (let prev_surplus_carried_forward =
            carried_forward (carry_forward_data s) company prev_month_year;
          current_balance = current_balance_of totals prev_surplus_carried_forward company;
          labels = (if live_labels s company \<noteq> None
                    then (live_labels s)(company \<mapsto>
                           labels_of totals prev_surplus_carried_forward company)
                    else live_labels s);
          cf = (if carry_forward_data s company = None
                then (carry_forward_data s)(company \<mapsto> Map.empty) else carry_forward_data s);
          months = (case cf company of None \<Rightarrow> Map.empty | Some m \<Rightarrow> m);
          months' = (if current_balance < 0
                     then months(current_month_year \<mapsto> quantize_decimal (PyNum current_balance))
                     else if months current_month_year \<noteq> None
                       then months(current_month_year := None) else months)
      in s\<lparr>carry_forward_data := cf(company \<mapsto> months'), live_labels := labels\<rparr>)"

text \<open>
  \<^verbatim>\<open>
  def _update_live_data_display(self, *args):
      try:
          selected_company = self.company_var.get()
          selected_year = self.year_var.get()
          selected_month_name = self.month_var.get()
          current_month_year = get_month_year_str(selected_year, selected_month_name)
          prev_month_year = get_prev_month_year_str(selected_year, selected_month_name)
          monthly_totals = defaultdict(...)
          for trans in self.transactions: ...
          for company in COMPANIES: ...
      except Exception as e:
          print(f"Error updating live data display: {e}")
  \<close>
  An OverflowError of \<^verbatim>\<open>get_prev_month_year_str\<close> is raised before anything is
  changed and is caught by the last clause: the state stays as it was. The model starts
  from a year the \<^verbatim>\<open>IntVar\<close> delivers; where \<^verbatim>\<open>self.year_var.get()\<close> raises, on a
  text that is no integer, the same clause leaves the state unchanged as well.
\<close>

definition update_live_data_display :: "app \<Rightarrow> date \<Rightarrow> app" where
  "update_live_data_display s today =
     (let current_month_year = get_month_year_str (year_var s) (month_var s) today in
      case get_prev_month_year_str (year_var s) (month_var s) today of
        Inl e \<Rightarrow> s
      | Inr prev_month_year \<Rightarrow>
          foldl (company_step current_month_year prev_month_year
                   (monthly_totals_of current_month_year (transactions s)))
                s COMPANIES)"


section \<open>Notions of the specification and example states\<close>

text \<open>
  What the specification asks of a derivation whose source field is absent or invalid,
  for the dependent fields \<open>f\<close> and \<open>g\<close> shown in the widgets \<open>w1\<close> and \<open>w2\<close>: the
  fields change only by being cleared, and only while neither widget has the focus.
\<close>

definition dependents_respect_focus ::
  "app \<Rightarrow> app \<Rightarrow> (app \<Rightarrow> entry_text) \<Rightarrow> (app \<Rightarrow> entry_text) \<Rightarrow> widget \<Rightarrow> widget \<Rightarrow> bool" where
  "dependents_respect_focus s s' f g w1 w2 =
     ((f s' \<noteq> f s \<or> g s' \<noteq> g s \<longrightarrow>
         focus s \<noteq> Some w1 \<and> focus s \<noteq> Some w2 \<and> f s' = Empty_text \<and> g s' = Empty_text)
      \<and> (focus s = Some w1 \<or> focus s = Some w2 \<longrightarrow> f s' = f s \<and> g s' = g s))"

text \<open>
  Rounding to cents as the program does it: half-up to two decimal places, but zero
  once the rounded value would need more than 28 digits.
\<close>

definition to_cents :: "rat \<Rightarrow> rat" where
  "to_cents x = (if \<bar>x\<bar> < 10 ^ 26 - 1 / 200 then round2 x else 0)"

text \<open>A form after start-up: the widgets exist, no derivation runs, the rate is 18%.\<close>

definition initial_app :: app where
  "initial_app =
     \<lparr>company_var = ''SOL'', year_var = 2024, month_var = ''January'',
      v_me_tvsh_var = Empty_text, v_pa_tvsh_var = Empty_text, tvsh_var = Empty_text,
      vat_rate = 18 / 100, calculating = False,
      has_v_me_tvsh_entry = True, has_v_pa_tvsh_entry = True, has_tvsh_entry = True,
      focus = None, transactions = [], carry_forward_data = Map.empty,
      live_labels = Map.empty\<rparr>"


text \<open>Example forms and a day for \<^verbatim>\<open>datetime.date.today()\<close>.\<close>

definition a_day :: date where
  "a_day = \<lparr>year = 2026, month = 11, day = 3\<rparr>"









text \<open>Reading decimal digits back, to tell period keys apart.\<close>

definition digit_val :: "char \<Rightarrow> int" where
  "digit_val c = (case index_of ''0123456789'' c of Some i \<Rightarrow> int i | None \<Rightarrow> 0)"

definition digits_val :: "string \<Rightarrow> int" where
  "digits_val cs = foldl (\<lambda>a c. 10 * a + digit_val c) 0 cs"

text \<open>What every \<^verbatim>\<open>datetime.date\<close> satisfies.\<close>

definition valid_date :: "date \<Rightarrow> bool" where
  "valid_date d =
     (1 \<le> year d \<and> year d \<le> 9999 \<and> 1 \<le> month d \<and> month d \<le> 12
      \<and> 1 \<le> day d \<and> day d \<le> days_in_month (year d) (month d))"

text \<open>
  The period the form selects, as (year, month number): a month name of the list and a
  year that \<^verbatim>\<open>datetime.date\<close> has, January of year 1 left out since no month precedes
  it in the calendar of \<^verbatim>\<open>datetime\<close>.
\<close>

definition month_number :: "string \<Rightarrow> int option" where
  "month_number name = map_option (\<lambda>i. int i + 1) (index_of MONTH_NAMES name)"


text \<open>The carry-forward entry stored for a company and a period key, if any.\<close>

definition stored_surplus ::
  "(string \<rightharpoonup> (string \<rightharpoonup> decimal)) \<Rightarrow> string \<Rightarrow> string \<Rightarrow> decimal option" where
  "stored_surplus cf company period =
     (case cf company of None \<Rightarrow> None | Some months \<Rightarrow> months period)"

text \<open>
  The months stored for a company, none when the company is not in the store; and the
  months after a recomputation of the period \<open>k\<close> with balance \<open>b\<close>: a negative balance
  is stored in cents, any other balance leaves no entry at \<open>k\<close>.
\<close>

definition months_of :: "(string \<rightharpoonup> (string \<rightharpoonup> decimal)) \<Rightarrow> string \<Rightarrow> (string \<rightharpoonup> decimal)" where
  "months_of cf company = (case cf company of None \<Rightarrow> Map.empty | Some months \<Rightarrow> months)"

definition set_entry :: "string \<Rightarrow> decimal \<Rightarrow> (string \<rightharpoonup> decimal) \<Rightarrow> (string \<rightharpoonup> decimal)" where
  "set_entry k b months = (if b < 0 then months(k \<mapsto> to_cents b) else months(k := None))"










text \<open>Example ledgers: both companies have their labels, as after start-up.\<close>

definition blank_labels :: company_labels where
  "blank_labels = \<lparr>type_labels = Map.empty, prev_surplus = 0, balance = 0, balance_style = DEFAULT\<rparr>"

definition vat_entry :: "string \<Rightarrow> string \<Rightarrow> string \<Rightarrow> decimal \<Rightarrow> transaction" where
  "vat_entry period company t_type v =
     [''month_year'' \<mapsto> PyStr period, ''company'' \<mapsto> PyStr company,
      ''transaction_type'' \<mapsto> PyStr t_type, ''vat'' \<mapsto> PyNum v]"

definition ledger_app :: app where
  "ledger_app =
     initial_app\<lparr>live_labels := [''SOL'' \<mapsto> blank_labels, ''HELO'' \<mapsto> blank_labels],
                 transactions := [vat_entry ''2024-01'' ''SOL'' ''Imports'' 50]\<rparr>"




definition year_one_app :: app where
  "year_one_app =
     ledger_app\<lparr>year_var := 1, transactions := [],
                carry_forward_data := [''SOL'' \<mapsto> [''1-01'' \<mapsto> - 5]]\<rparr>"



section \<open>Facts about the decimal arithmetic\<close>





lemma abs_round_half_up: "\<bar>round_half_up x\<bar> = \<lfloor>\<bar>x\<bar> + 1 / 2\<rfloor>"
proof (cases "0 \<le> x")
  case True
  then have "0 \<le> \<lfloor>x + 1 / 2\<rfloor>" by simp
  with True show ?thesis by (simp add: round_half_up_def)
next
  case False
  then have "0 \<le> \<lfloor>- x + 1 / 2\<rfloor>" by simp
  with False show ?thesis by (simp add: round_half_up_def)
qed












text \<open>
  \<open>quantize_decimal\<close> on a number: the value rounded half-up to cents while the rounded
  value has at most 28 digits, and zero beyond.
\<close>

lemma quantize_decimal_to_cents: "quantize_decimal (PyNum x) = to_cents x"
proof -
  have "(10 ^ 28 \<le> \<bar>round_half_up (x * 100)\<bar>) = (10 ^ 26 - 1 / 200 \<le> \<bar>x\<bar>)"
  proof -
    have "(10 ^ 28 \<le> \<lfloor>\<bar>x * 100\<bar> + 1 / 2\<rfloor>) = ((10::rat) ^ 28 \<le> \<bar>x * 100\<bar> + 1 / 2)"
      by (simp only: le_floor_iff of_int_power of_int_numeral)
    also have "\<dots> = (10 ^ 26 - 1 / 200 \<le> \<bar>x\<bar>)" by (simp add: abs_mult) linarith
    finally show ?thesis by (simp only: abs_round_half_up)
  qed
  then show ?thesis
    by (auto simp: quantize_decimal_def quantize_def to_cents_def round2_def Let_def)
qed




section \<open>Properties of the derivations\<close>















text \<open>
  C9. When the source field of a derivation is absent or invalid (the test that guards
  the derivation fails), the two dependent fields change only by being cleared, and
  then neither dependent field holds the keyboard focus; if either dependent field is
  focused, both keep their contents. This holds for the derivation from the base, from
  the VAT and from the total.
\<close>

theorem invalid_source_respects_focus:
  "(\<not> amount_ok (safely_get_decimal (v_pa_tvsh_var s)) \<longrightarrow>
      dependents_respect_focus s (calculate_from_base s) tvsh_var v_me_tvsh_var
        Tvsh_entry V_me_tvsh_entry)
   \<and> (\<not> (amount_ok (safely_get_decimal (tvsh_var s)) \<and> 0 < vat_rate s) \<longrightarrow>
      dependents_respect_focus s (calculate_from_vat s) v_pa_tvsh_var v_me_tvsh_var
        V_pa_tvsh_entry V_me_tvsh_entry)
   \<and> (\<not> (amount_ok (safely_get_decimal (v_me_tvsh_var s)) \<and> 0 < dec_add 1 (vat_rate s)) \<longrightarrow>
      dependents_respect_focus s (calculate_from_total s) v_pa_tvsh_var tvsh_var
        V_pa_tvsh_entry Tvsh_entry)"
  by (auto simp: dependents_respect_focus_def calculate_from_base_def calculate_from_vat_def
        calculate_from_total_def Let_def)

theorem invalid_source_respects_focus_witness:
  "(let s = initial_app\<lparr>v_pa_tvsh_var := Invalid_text, tvsh_var := Decimal_text (- 1),
              v_me_tvsh_var := Decimal_text (- 2), focus := Some V_me_tvsh_entry\<rparr>
    in \<not> amount_ok (safely_get_decimal (v_pa_tvsh_var s))
       \<and> \<not> (amount_ok (safely_get_decimal (tvsh_var s)) \<and> 0 < vat_rate s)
       \<and> \<not> (amount_ok (safely_get_decimal (v_me_tvsh_var s)) \<and> 0 < dec_add 1 (vat_rate s))
       \<and> focus s = Some V_me_tvsh_entry
       \<and> tvsh_var (calculate_from_base s) = Decimal_text (- 1)
       \<and> v_me_tvsh_var (calculate_from_base s) = Decimal_text (- 2)
       \<and> v_pa_tvsh_var (calculate_from_vat s) = Invalid_text
       \<and> v_me_tvsh_var (calculate_from_vat s) = Decimal_text (- 2)
       \<and> dependents_respect_focus s (calculate_from_total s) v_pa_tvsh_var tvsh_var
            V_pa_tvsh_entry Tvsh_entry)"
  using invalid_source_respects_focus
    [of "initial_app\<lparr>v_pa_tvsh_var := Invalid_text, tvsh_var := Decimal_text (- 1),
              v_me_tvsh_var := Decimal_text (- 2), focus := Some V_me_tvsh_entry\<rparr>"]
  by (simp add: initial_app_def amount_ok_def safely_get_decimal_def
        dependents_respect_focus_def Let_def)

section \<open>Properties of the validation\<close>




section \<open>Period keys\<close>

lemma digit_cases:
  "0 \<le> d \<Longrightarrow> d < 10 \<Longrightarrow>
     d = 0 \<or> d = 1 \<or> d = 2 \<or> d = 3 \<or> d = 4 \<or> d = 5 \<or> d = 6 \<or> d = 7 \<or> d = 8 \<or> d = (9::int)"
  by presburger

lemma digit_val_digit_char: "0 \<le> d \<Longrightarrow> d < 10 \<Longrightarrow> digit_val (digit_char d) = d"
  using digit_cases [of d] by (auto simp: digit_val_def digit_char_def)

lemma digit_char_in_digits: "0 \<le> d \<Longrightarrow> d < 10 \<Longrightarrow> digit_char d \<in> set ''0123456789''"
  using digit_cases [of d] by (auto simp: digit_char_def)

lemma digits_val_snoc: "digits_val (cs @ [c]) = 10 * digits_val cs + digit_val c"
  by (simp add: digits_val_def)

lemma digits_val_str_digits: "0 \<le> n \<Longrightarrow> digits_val (str_digits n) = n"
proof (induction n rule: str_digits.induct)
  case (1 n)
  show ?case
  proof (cases "n < 10")
    case True
    with "1.prems" show ?thesis
      by (subst str_digits.simps) (simp add: digits_val_def digit_val_digit_char)
  next
    case False
    then have eq: "str_digits n = str_digits (n div 10) @ [digit_char (n mod 10)]"
      by (subst str_digits.simps) simp
    have "digits_val (str_digits (n div 10)) = n div 10" using "1.IH" False "1.prems" by simp
    then show ?thesis unfolding eq digits_val_snoc by (simp add: digit_val_digit_char)
  qed
qed

lemma str_digits_chars: "0 \<le> n \<Longrightarrow> set (str_digits n) \<subseteq> set ''0123456789''"
proof (induction n rule: str_digits.induct)
  case (1 n)
  show ?case
  proof (cases "n < 10")
    case True
    with "1.prems" digit_char_in_digits [of n] show ?thesis
      by (subst str_digits.simps) simp
  next
    case False
    then have eq: "str_digits n = str_digits (n div 10) @ [digit_char (n mod 10)]"
      by (subst str_digits.simps) simp
    have "set (str_digits (n div 10)) \<subseteq> set ''0123456789''" using "1.IH" False "1.prems" by simp
    moreover have "digit_char (n mod 10) \<in> set ''0123456789''"
      by (rule digit_char_in_digits) simp_all
    ultimately show ?thesis unfolding eq by simp
  qed
qed

lemma str_int_inj: "str_int a = str_int b \<Longrightarrow> a = b"
proof -
  assume eq: "str_int a = str_int b"
  have no_minus: "CHR ''-'' \<notin> set (str_digits n)" if "0 \<le> n" for n
    using str_digits_chars [OF that] by auto
  consider "a < 0" "b < 0" | "0 \<le> a" "0 \<le> b" | "a < 0" "0 \<le> b" | "0 \<le> a" "b < 0" by linarith
  then show ?thesis
  proof cases
    case 1
    with eq have "str_digits (- a) = str_digits (- b)" by (simp add: str_int_def)
    then have "digits_val (str_digits (- a)) = digits_val (str_digits (- b))" by simp
    with 1 show ?thesis by (simp add: digits_val_str_digits)
  next
    case 2
    with eq have "digits_val (str_digits a) = digits_val (str_digits b)" by (simp add: str_int_def)
    with 2 show ?thesis by (simp add: digits_val_str_digits)
  next
    case 3
    with eq have "CHR ''-'' # str_digits (- a) = str_digits b" by (simp add: str_int_def)
    then have "CHR ''-'' \<in> set (str_digits b)" by (metis list.set_intros(1))
    with no_minus [of b] 3 show ?thesis by simp
  next
    case 4
    with eq have "str_digits a = CHR ''-'' # str_digits (- b)" by (simp add: str_int_def)
    then have "CHR ''-'' \<in> set (str_digits a)" by (metis list.set_intros(1))
    with no_minus [of a] 4 show ?thesis by simp
  qed
qed

lemma month_cases:
  "1 \<le> m \<Longrightarrow> m \<le> 12 \<Longrightarrow>
     m = 1 \<or> m = 2 \<or> m = 3 \<or> m = 4 \<or> m = 5 \<or> m = 6 \<or> m = 7 \<or> m = 8 \<or> m = 9 \<or> m = 10
     \<or> m = 11 \<or> m = (12::int)"
  by presburger

lemma pad2_values:
  "pad2 1 = ''01''" "pad2 2 = ''02''" "pad2 3 = ''03''" "pad2 4 = ''04''" "pad2 5 = ''05''"
  "pad2 6 = ''06''" "pad2 7 = ''07''" "pad2 8 = ''08''" "pad2 9 = ''09''" "pad2 10 = ''10''"
  "pad2 11 = ''11''" "pad2 12 = ''12''"
  by code_simp+

lemma pad2_month:
  assumes "1 \<le> m" "m \<le> 12"
  shows "length (pad2 m) = 2 \<and> digits_val (pad2 m) = m"
  using month_cases [OF assms]
  by (elim disjE) (simp_all add: pad2_values digits_val_def digit_val_def)

lemma period_key_inj:
  assumes "period_key (y, m) = period_key (y', m')" "1 \<le> m" "m \<le> 12" "1 \<le> m'" "m' \<le> 12"
  shows "y = y' \<and> m = m'"
proof -
  have len: "length (''-'' @ pad2 m) = length (''-'' @ pad2 m')"
    using pad2_month assms by simp
  from assms(1) have "str_int y @ (''-'' @ pad2 m) = str_int y' @ (''-'' @ pad2 m')"
    by (simp add: period_key_def)
  with len have "str_int y = str_int y'" "''-'' @ pad2 m = ''-'' @ pad2 m'"
    using append_eq_append_conv [of "str_int y" "str_int y'" "''-'' @ pad2 m" "''-'' @ pad2 m'"]
    by blast+
  then have "y = y'" "digits_val (pad2 m) = digits_val (pad2 m')" by (simp_all add: str_int_inj)
  then show ?thesis using pad2_month assms by simp
qed

lemma index_of_Some: "index_of xs x = Some i \<Longrightarrow> i < length xs \<and> xs ! i = x"
  by (induction xs arbitrary: i) (auto split: if_splits option.splits)

lemma month_number_range: "month_number name = Some m \<Longrightarrow> 1 \<le> m \<and> m \<le> 12"
  using index_of_Some [of MONTH_NAMES name]
  by (auto simp: month_number_def MONTH_NAMES_def)

lemma previous_period_month:
  "1 \<le> m \<Longrightarrow> m \<le> 12 \<Longrightarrow>
     1 \<le> snd (previous_period (y, m)) \<and> snd (previous_period (y, m)) \<le> 12
     \<and> snd (previous_period (y, m)) \<noteq> m"
  by (auto simp: previous_period_def)

lemma minus_one_day_first:
  assumes "1 \<le> m" "m \<le> 12" "(y, m) \<noteq> (1, 1)" "1 \<le> y"
  shows "map_option strftime_Ym (minus_one_day \<lparr>year = y, month = m, day = 1\<rparr>)
           = Some (period_key (previous_period (y, m)))"
  using assms by (auto simp: minus_one_day_def strftime_Ym_def period_key_def previous_period_def)

lemma minus_one_day_january_1: "minus_one_day \<lparr>year = 1, month = 1, day = 1\<rparr> = None"
  by (simp add: minus_one_day_def)


lemma keys_differ:
  assumes "valid_date today"
    and "get_prev_month_year_str y name today = Inr p"
  shows "p \<noteq> get_month_year_str y name today"
proof -
  define ty tm where "ty = year today" and "tm = month today"
  have t: "1 \<le> ty" "ty \<le> 9999" "1 \<le> tm" "tm \<le> 12"
    using assms(1) by (simp_all add: valid_date_def ty_def tm_def)
  have first: "today\<lparr>day := 1\<rparr> = \<lparr>year = ty, month = tm, day = 1\<rparr>"
    by (simp add: ty_def tm_def)
  have fallback: "p = period_key (previous_period (ty, tm)) \<and> (ty, tm) \<noteq> (1, 1)"
    if "minus_one_day (today\<lparr>day := 1\<rparr>) = Some d" "p = strftime_Ym d" for d
  proof -
    have ne: "(ty, tm) \<noteq> (1, 1)" using that(1) minus_one_day_january_1 unfolding first by auto
    from minus_one_day_first [OF t(3,4) ne t(1)] that have "p = period_key (previous_period (ty, tm))"
      unfolding first by simp
    with ne show ?thesis by blast
  qed
  show ?thesis
  proof (cases "index_of MONTH_NAMES name")
    case None
    with assms(2) obtain d where d: "minus_one_day (today\<lparr>day := 1\<rparr>) = Some d" "p = strftime_Ym d"
      by (auto simp: get_prev_month_year_str_def split: option.splits)
    from fallback [OF d] have p: "p = period_key (previous_period (ty, tm))" by simp
    have cur: "get_month_year_str y name today = period_key (ty, tm)"
      using None by (simp add: get_month_year_str_def period_key_def ty_def tm_def)
    show ?thesis
    proof
      assume "p = get_month_year_str y name today"
      then have "period_key (fst (previous_period (ty, tm)), snd (previous_period (ty, tm)))
                   = period_key (ty, tm)" unfolding p cur by simp
      from period_key_inj [OF this] previous_period_month [OF t(3,4), of ty] t
      show False by simp
    qed
  next
    case (Some i)
    define m where "m = int i + 1"
    have mn: "month_number name = Some m" by (simp add: month_number_def Some m_def)
    have r: "1 \<le> m" "m \<le> 12" using month_number_range [OF mn] by simp_all
    have cur: "get_month_year_str y name today = period_key (y, m)"
      using Some by (simp add: get_month_year_str_def period_key_def m_def)
    show ?thesis
    proof (cases "1 \<le> y \<and> y \<le> 9999")
      case True
      then have dn: "date_new y m 1 = Some \<lparr>year = y, month = m, day = 1\<rparr>"
        using r by (simp add: date_new_def days_in_month_def)
      with assms(2) Some obtain d where d: "minus_one_day \<lparr>year = y, month = m, day = 1\<rparr> = Some d"
        "p = strftime_Ym d"
        by (auto simp: get_prev_month_year_str_def m_def split: option.splits)
      have ne: "(y, m) \<noteq> (1, 1)" using d(1) minus_one_day_january_1 by auto
      from minus_one_day_first [OF r ne] True d
      have p: "p = period_key (previous_period (y, m))" by simp
      show ?thesis
      proof
        assume "p = get_month_year_str y name today"
        then have "period_key (fst (previous_period (y, m)), snd (previous_period (y, m)))
                     = period_key (y, m)" unfolding p cur by simp
        from period_key_inj [OF this] previous_period_month [OF r, of y] r
        show False by simp
      qed
    next
      case False
      then have dn: "date_new y m 1 = None" by (auto simp: date_new_def)
      with assms(2) Some obtain d where d: "minus_one_day (today\<lparr>day := 1\<rparr>) = Some d"
        "p = strftime_Ym d"
        by (auto simp: get_prev_month_year_str_def m_def split: option.splits)
      from fallback [OF d] have p: "p = period_key (previous_period (ty, tm))"
        and ne: "(ty, tm) \<noteq> (1, 1)" by simp_all
      have py: "1 \<le> fst (previous_period (ty, tm))" "fst (previous_period (ty, tm)) \<le> 9999"
        using t ne by (auto simp: previous_period_def)
      show ?thesis
      proof
        assume "p = get_month_year_str y name today"
        then have "period_key (fst (previous_period (ty, tm)), snd (previous_period (ty, tm)))
                     = period_key (y, m)" unfolding p cur by simp
        from period_key_inj [OF this] previous_period_month [OF t(3,4), of ty] r
        have "fst (previous_period (ty, tm)) = y" by simp
        with py False show False by simp
      qed
    qed
  qed
qed

section \<open>Facts about the recomputation\<close>

lemma stored_surplus_months: "stored_surplus cf c k = months_of cf c k"
  by (simp add: stored_surplus_def months_of_def split: option.splits)

lemma carried_forward_months:
  "carried_forward cf c k = (case months_of cf c k of None \<Rightarrow> 0 | Some x \<Rightarrow> x)"
  by (simp add: carried_forward_def months_of_def split: option.splits)

lemma company_step_eq:
  "company_step cur prev T s c =
     s\<lparr>carry_forward_data := (carry_forward_data s)(c \<mapsto>
          set_entry cur (current_balance_of T (carried_forward (carry_forward_data s) c prev) c)
            (months_of (carry_forward_data s) c)),
       live_labels := (if live_labels s c \<noteq> None
          then (live_labels s)(c \<mapsto> labels_of T (carried_forward (carry_forward_data s) c prev) c)
          else live_labels s)\<rparr>"
proof -
  have del: "(if m cur \<noteq> None then m(cur := None) else m) = m(cur := None)"
    for m :: "string \<rightharpoonup> decimal"
    by (auto simp: fun_eq_iff)
  have cf: "(if cf c = None then cf(c \<mapsto> Map.empty) else cf)(c \<mapsto> X) = cf(c \<mapsto> X)"
    for cf :: "string \<rightharpoonup> (string \<rightharpoonup> decimal)" and X
    by simp
  have mo: "(case (if cf c = None then cf(c \<mapsto> Map.empty) else cf) c of
               None \<Rightarrow> Map.empty | Some m \<Rightarrow> m) = months_of cf c"
    for cf :: "string \<rightharpoonup> (string \<rightharpoonup> decimal)"
    by (simp add: months_of_def split: option.splits)
  show ?thesis
    unfolding company_step_def Let_def mo del cf
    by (simp add: set_entry_def quantize_decimal_to_cents)
qed
lemma set_entry_other: "k' \<noteq> k \<Longrightarrow> set_entry k b m k' = m k'"
  by (simp add: set_entry_def)

lemma set_entry_at: "set_entry k b m k = (if b < 0 then Some (to_cents b) else None)"
  by (simp add: set_entry_def)

lemma set_entry_idem: "set_entry k b (set_entry k b m) = set_entry k b m"
  by (simp add: set_entry_def)

lemma update_eq:
  assumes "get_prev_month_year_str (year_var s) (month_var s) today = Inr prev"
    and "cur = get_month_year_str (year_var s) (month_var s) today"
    and "T = monthly_totals_of cur (transactions s)"
  shows "update_live_data_display s today =
     s\<lparr>carry_forward_data := (\<lambda>c. if c \<in> set COMPANIES
          then Some (set_entry cur
                 (current_balance_of T (carried_forward (carry_forward_data s) c prev) c)
                 (months_of (carry_forward_data s) c))
          else carry_forward_data s c),
       live_labels := (\<lambda>c. if c \<in> set COMPANIES \<and> live_labels s c \<noteq> None
          then Some (labels_of T (carried_forward (carry_forward_data s) c prev) c)
          else live_labels s c)\<rparr>"
proof -
  define bal where "bal = (\<lambda>c. current_balance_of T (carried_forward (carry_forward_data s) c prev) c)"
  define lab where "lab = (\<lambda>c. labels_of T (carried_forward (carry_forward_data s) c prev) c)"
  define C1 where "C1 = (carry_forward_data s)(''SOL'' \<mapsto>
                     set_entry cur (bal ''SOL'') (months_of (carry_forward_data s) ''SOL''))"
  define L1 where "L1 = (if live_labels s ''SOL'' \<noteq> None
                    then (live_labels s)(''SOL'' \<mapsto> lab ''SOL'') else live_labels s)"
  define C2 where "C2 = C1(''HELO'' \<mapsto> set_entry cur (bal ''HELO'') (months_of (carry_forward_data s) ''HELO''))"
  define L2 where "L2 = (if L1 ''HELO'' \<noteq> None then L1(''HELO'' \<mapsto> lab ''HELO'') else L1)"
  have u: "update_live_data_display s today
             = company_step cur prev T (company_step cur prev T s ''SOL'') ''HELO''"
    using assms by (simp add: update_live_data_display_def COMPANIES_def Let_def)
  have s1: "company_step cur prev T s ''SOL'' = s\<lparr>carry_forward_data := C1, live_labels := L1\<rparr>"
    unfolding C1_def L1_def bal_def lab_def by (rule company_step_eq)
  have cfh: "carried_forward C1 ''HELO'' prev = carried_forward (carry_forward_data s) ''HELO'' prev"
    by (simp add: carried_forward_def C1_def)
  have moh: "months_of C1 ''HELO'' = months_of (carry_forward_data s) ''HELO''"
    by (simp add: months_of_def C1_def)
  have s2: "company_step cur prev T (s\<lparr>carry_forward_data := C1, live_labels := L1\<rparr>) ''HELO''
              = s\<lparr>carry_forward_data := C2, live_labels := L2\<rparr>"
    by (subst company_step_eq) (simp add: cfh moh C2_def L2_def bal_def lab_def)
  have C: "C2 = (\<lambda>c. if c \<in> set COMPANIES
                 then Some (set_entry cur (bal c) (months_of (carry_forward_data s) c))
                 else carry_forward_data s c)"
    by (rule ext) (simp add: C2_def C1_def COMPANIES_def)
  have L: "L2 = (\<lambda>c. if c \<in> set COMPANIES \<and> live_labels s c \<noteq> None then Some (lab c)
                 else live_labels s c)"
    by (rule ext) (simp add: L2_def L1_def COMPANIES_def)
  show ?thesis
    unfolding u s1 s2 C L bal_def lab_def ..
qed

lemma update_aborted:
  assumes "get_prev_month_year_str (year_var s) (month_var s) today = Inl e"
  shows "update_live_data_display s today = s"
  using assms by (simp add: update_live_data_display_def)

lemma update_idem:
  assumes "valid_date today"
  shows "update_live_data_display (update_live_data_display s today) today
           = update_live_data_display s today"
proof (cases "get_prev_month_year_str (year_var s) (month_var s) today")
  case (Inl e)
  then show ?thesis by (simp add: update_aborted)
next
  case (Inr prev)
  define cur where "cur = get_month_year_str (year_var s) (month_var s) today"
  define T where "T = monthly_totals_of cur (transactions s)"
  have ne: "prev \<noteq> cur" unfolding cur_def by (rule keys_differ [OF assms Inr])
  define C where "C = (\<lambda>c. if c \<in> set COMPANIES
          then Some (set_entry cur
                 (current_balance_of T (carried_forward (carry_forward_data s) c prev) c)
                 (months_of (carry_forward_data s) c))
          else carry_forward_data s c)"
  define L where "L = (\<lambda>c. if c \<in> set COMPANIES \<and> live_labels s c \<noteq> None
          then Some (labels_of T (carried_forward (carry_forward_data s) c prev) c)
          else live_labels s c)"
  define s' where "s' = s\<lparr>carry_forward_data := C, live_labels := L\<rparr>"
  have u: "update_live_data_display s today = s'"
    unfolding s'_def C_def L_def by (rule update_eq [OF Inr cur_def T_def])
  have f: "year_var s' = year_var s" "month_var s' = month_var s"
    "transactions s' = transactions s" "carry_forward_data s' = C" "live_labels s' = L"
    by (simp_all add: s'_def)
  have mo: "months_of C c = set_entry cur
                 (current_balance_of T (carried_forward (carry_forward_data s) c prev) c)
                 (months_of (carry_forward_data s) c)" if "c \<in> set COMPANIES" for c
    using that by (simp add: C_def months_of_def)
  have cf: "carried_forward C c prev = carried_forward (carry_forward_data s) c prev"
    if "c \<in> set COMPANIES" for c
    using ne by (simp add: carried_forward_months mo [OF that] set_entry_other)
  have C': "(\<lambda>c. if c \<in> set COMPANIES
          then Some (set_entry cur (current_balance_of T (carried_forward C c prev) c) (months_of C c))
          else C c) = C"
  proof (rule ext)
    fix c
    show "(if c \<in> set COMPANIES
          then Some (set_entry cur (current_balance_of T (carried_forward C c prev) c) (months_of C c))
          else C c) = C c"
    proof (cases "c \<in> set COMPANIES")
      case True
      then show ?thesis by (simp add: cf mo set_entry_idem) (simp add: C_def)
    next
      case False
      then show ?thesis by simp
    qed
  qed
  have L': "(\<lambda>c. if c \<in> set COMPANIES \<and> L c \<noteq> None
          then Some (labels_of T (carried_forward C c prev) c) else L c) = L"
  proof (rule ext)
    fix c
    show "(if c \<in> set COMPANIES \<and> L c \<noteq> None
          then Some (labels_of T (carried_forward C c prev) c) else L c) = L c"
    proof (cases "c \<in> set COMPANIES")
      case True
      then show ?thesis by (simp add: cf) (simp add: L_def)
    next
      case False
      then show ?thesis by simp
    qed
  qed
  have p': "get_prev_month_year_str (year_var s') (month_var s') today = Inr prev"
    using Inr by (simp only: f)
  have c': "cur = get_month_year_str (year_var s') (month_var s') today"
    by (simp only: f cur_def)
  have t': "T = monthly_totals_of cur (transactions s')"
    by (simp only: f T_def)
  have "update_live_data_display s' today = s'\<lparr>carry_forward_data := C, live_labels := L\<rparr>"
    using update_eq [OF p' c' t'] by (simp only: f C' L')
  also have "\<dots> = s'" by (simp add: s'_def)
  finally show ?thesis unfolding u .
qed










lemma recompute_frame:
  assumes "c \<notin> set COMPANIES \<or> k \<noteq> get_month_year_str (year_var s) (month_var s) today"
  shows "stored_surplus (carry_forward_data (update_live_data_display s today)) c k
           = stored_surplus (carry_forward_data s) c k"
proof (cases "get_prev_month_year_str (year_var s) (month_var s) today")
  case (Inl e)
  then show ?thesis by (simp add: update_aborted)
next
  case (Inr prev)
  show ?thesis
    using assms
    by (auto simp: update_eq [OF Inr refl refl] stored_surplus_months months_of_def set_entry_other)
qed

lemma recompute_writes_or_deletes:
  assumes "get_prev_month_year_str (year_var s) (month_var s) today = Inr prev"
    and "c \<in> set COMPANIES"
    and "cur = get_month_year_str (year_var s) (month_var s) today"
    and "b = current_balance_of (monthly_totals_of cur (transactions s))
               (carried_forward (carry_forward_data s) c prev) c"
  shows "stored_surplus (carry_forward_data (update_live_data_display s today)) c cur
           = (if b < 0 then Some (to_cents b) else None)"
  using assms(2)
  by (simp add: update_eq [OF assms(1) assms(3) refl] stored_surplus_def set_entry_at assms(4))






section \<open>Properties of the ledger\<close>










text \<open>
  C4. Whatever the state, a second recomputation right after a first one, with the same
  transactions, selection and day, changes nothing: the labels and the carry-forward
  store, and the whole state, are what the first call left.
\<close>

theorem recompute_idempotent:
  assumes "valid_date today"
  shows "live_labels (update_live_data_display (update_live_data_display s today) today)
           = live_labels (update_live_data_display s today)
         \<and> carry_forward_data (update_live_data_display (update_live_data_display s today) today)
           = carry_forward_data (update_live_data_display s today)
         \<and> update_live_data_display (update_live_data_display s today) today
           = update_live_data_display s today"
  using update_idem [OF assms, of s] by simp

theorem recompute_idempotent_witness:
  "valid_date a_day
   \<and> update_live_data_display (update_live_data_display ledger_app a_day) a_day
        = update_live_data_display ledger_app a_day"
proof -
  have v: "valid_date a_day" by code_simp
  from recompute_idempotent [OF v, of ledger_app] v show ?thesis by simp
qed

text \<open>
  C10 on the selection January of year 1, with an earlier surplus of \<open>-5\<close> stored for
  SOL at the key \<open>1-01\<close> and no transactions: the balance of the period is 0, so the
  entry should be deleted, but \<^verbatim>\<open>get_prev_month_year_str\<close> raises OverflowError, the
  recomputation ends before its loop, and the entry stays.
\<close>

theorem recompute_january_of_year_one:
  "year_var year_one_app = 1 \<and> month_var year_one_app = ''January''
   \<and> get_month_year_str (year_var year_one_app) (month_var year_one_app) a_day = ''1-01''
   \<and> get_prev_month_year_str (year_var year_one_app) (month_var year_one_app) a_day
        = Inl OverflowError
   \<and> net_vat (monthly_totals_of ''1-01'' (transactions year_one_app)) ''SOL'' = 0
   \<and> stored_surplus (carry_forward_data year_one_app) ''SOL'' ''1-01'' = Some (- 5)
   \<and> stored_surplus (carry_forward_data (update_live_data_display year_one_app a_day))
        ''SOL'' ''1-01'' = Some (- 5)"
  by code_simp

end
